theory Spec2Isabelle
  imports
    Complex_Main
    "HOL-Library.Multiset"
    "HOL-Library.Sublist"
    "HOL-Library.Char_ord"
    "HOL-Library.List_Lexorder"
    "HOL-Library.Log_Nat"
    "HOL-Library.Word"
begin

section \<open>JavaScript values\<close>

subsection \<open>Strings\<close>

text \<open>
  A JavaScript string is a sequence of 16-bit code units, and \<^verbatim>\<open><\<close> on two strings
  compares them lexicographically by code unit; this is the order of lists of words.
  \<open>utf16\<close> writes a string of ASCII characters as its code units.
\<close>

type_synonym jsstring = "16 word list"

definition utf16 :: "string \<Rightarrow> jsstring" where
  "utf16 s = map (\<lambda>c. of_nat (of_char c)) s"

text \<open>
  \<^verbatim>\<open>String.prototype.toLowerCase\<close> converts by the case mappings of the Unicode Character
  Database, which are no part of the repository. The conversion is therefore a parameter,
  called \<open>toLowerCase\<close>, of every function of the source that calls it, and what is proved
  of these functions is proved for every conversion.

  On a string of ASCII code units the built-in conversion changes the letters A to Z
  and nothing else. \<open>asciiLowerCase\<close> is this conversion; it stands for the parameter
  in the worked examples, whose strings are all ASCII.
\<close>

definition asciiLowerUnit :: "16 word \<Rightarrow> 16 word" where
  "asciiLowerUnit u = (if 65 \<le> u \<and> u \<le> 90 then u + 32 else u)"

definition asciiLowerCase :: "jsstring \<Rightarrow> jsstring" where
  "asciiLowerCase s = map asciiLowerUnit s"

text \<open>
  \<^verbatim>\<open>String.prototype.includes\<close>: the search string is looked for at every start
  position of the receiver, from the left.
\<close>

fun startsWith :: "'a list \<Rightarrow> 'a list \<Rightarrow> bool" where
  "startsWith s [] = True"
| "startsWith [] (q # qs) = False"
| "startsWith (c # cs) (q # qs) = (c = q \<and> startsWith cs qs)"

fun string_includes :: "'a list \<Rightarrow> 'a list \<Rightarrow> bool" where
  "string_includes [] q = startsWith [] q"
| "string_includes (c # cs) q = (startsWith (c # cs) q \<or> string_includes cs q)"

subsection \<open>Numbers\<close>

text \<open>
  A Number is an IEEE 754 binary64 value. A finite one is modelled by the real number it
  denotes (the sign of zero is not kept: nothing in the source can tell the two zeros
  apart). An arithmetic operation computes the exact result and rounds it to the
  nearest binary64 value, a tie going to the even significand.

  \<open>binade x\<close> is the exponent \<open>e\<close> with \<open>2\<^sup>e \<le> \<bar>x\<bar> < 2\<^sup>e\<^sup>+\<^sup>1\<close>, for \<open>x \<noteq> 0\<close>. The
  significand has 53 bits, so the spacing of the binary64 values around \<open>x\<close> is
  \<open>2\<^sup>e\<^sup>-\<^sup>5\<^sup>2\<close>, and it is \<open>2\<^sup>-\<^sup>1\<^sup>0\<^sup>7\<^sup>4\<close> for the subnormal values below \<open>2\<^sup>-\<^sup>1\<^sup>0\<^sup>2\<^sup>2\<close>.
\<close>

definition pow2 :: "int \<Rightarrow> real" where
  "pow2 k = (if 0 \<le> k then 2 ^ nat k else 1 / 2 ^ nat (- k))"

definition binade :: "real \<Rightarrow> int" where
  "binade x = (if 1 \<le> \<bar>x\<bar> then bitlen \<lfloor>\<bar>x\<bar>\<rfloor> - 1 else - bitlen (\<lceil>1 / \<bar>x\<bar>\<rceil> - 1))"

definition roundHalfEven :: "real \<Rightarrow> int" where
  "roundHalfEven x =
     (let f = \<lfloor>x\<rfloor>; d = x - of_int f
      in if d < 1 / 2 then f else if 1 / 2 < d then f + 1 else if even f then f else f + 1)"

definition round64 :: "real \<Rightarrow> real" where
  "round64 x =
     (if x = 0 then 0
      else let e = max (binade x) (- 1022); ulp = pow2 (e - 52)
           in of_int (roundHalfEven (x / ulp)) * ulp)"

text \<open>
  The Number values: the finite ones, the two infinities and NaN. A result whose rounded
  magnitude reaches \<open>2\<^sup>1\<^sup>0\<^sup>2\<^sup>4\<close>, that is whose binade is 1024 or more, overflows to
  an infinity.
\<close>

datatype number = Finite real | PosInfinity | NegInfinity | NaN

definition fl64 :: "real \<Rightarrow> number" where
  "fl64 x =
     (let y = round64 x
      in if y \<noteq> 0 \<and> 1024 \<le> binade y then (if 0 < y then PosInfinity else NegInfinity)
         else Finite y)"

fun num_neg :: "number \<Rightarrow> number" where
  "num_neg (Finite a) = Finite (- a)"
| "num_neg PosInfinity = NegInfinity"
| "num_neg NegInfinity = PosInfinity"
| "num_neg NaN = NaN"

text \<open>The operator \<^verbatim>\<open>*\<close> on two Numbers.\<close>

fun num_mul :: "number \<Rightarrow> number \<Rightarrow> number" where
  "num_mul (Finite a) (Finite b) = fl64 (a * b)"
| "num_mul NaN y = NaN"
| "num_mul x NaN = NaN"
| "num_mul (Finite a) y = (if a = 0 then NaN else if 0 < a then y else num_neg y)"
| "num_mul x (Finite b) = (if b = 0 then NaN else if 0 < b then x else num_neg x)"
| "num_mul PosInfinity y = y"
| "num_mul NegInfinity y = num_neg y"

text \<open>
  The operator \<^verbatim>\<open>/\<close> of a Number by a finite divisor; a divisor that is zero is the
  positive zero.
\<close>

fun num_div :: "number \<Rightarrow> real \<Rightarrow> number" where
  "num_div (Finite a) d =
     (if d = 0 then (if a = 0 then NaN else if 0 < a then PosInfinity else NegInfinity)
      else fl64 (a / d))"
| "num_div NaN d = NaN"
| "num_div x d = (if 0 \<le> d then x else num_neg x)"

text \<open>
  \<^verbatim>\<open>Math.round\<close>: the nearest integer, a tie going towards plus infinity. The result is
  exact: the integer nearest to a binary64 value is a binary64 value.
\<close>

definition Math_round :: "real \<Rightarrow> real" where
  "Math_round x = of_int \<lfloor>x + 1 / 2\<rfloor>"

fun num_Math_round :: "number \<Rightarrow> number" where
  "num_Math_round (Finite a) = Finite (Math_round a)"
| "num_Math_round x = x"

subsection \<open>Arrays\<close>

text \<open>
  \<^verbatim>\<open>Array.prototype.slice(0, end)\<close> for an integer end index: a negative end counts
  from the end of the array, and the final index is clamped to the array.
\<close>

definition slice0 :: "'a list \<Rightarrow> int \<Rightarrow> 'a list" where
  "slice0 xs endIndex =
     (let len = int (length xs);
          final = (if endIndex < 0 then max (len + endIndex) 0 else min endIndex len)
      in take (nat final) xs)"

text \<open>
  \<^verbatim>\<open>Array.prototype.sort(compareFn)\<close>. ECMAScript (2019 and later) requires the sort to
  be stable; for a comparator the result is the stable ordering of the elements by it.
  The model is the stable insertion sort: an element is placed in front of the first
  element of the already sorted rest that it does not compare greater than.
\<close>

fun insertBy :: "('a \<Rightarrow> 'a \<Rightarrow> int) \<Rightarrow> 'a \<Rightarrow> 'a list \<Rightarrow> 'a list" where
  "insertBy compareFn x [] = [x]"
| "insertBy compareFn x (y # ys) =
     (if compareFn x y \<le> 0 then x # y # ys else y # insertBy compareFn x ys)"

fun array_sort :: "('a \<Rightarrow> 'a \<Rightarrow> int) \<Rightarrow> 'a list \<Rightarrow> 'a list" where
  "array_sort compareFn [] = []"
| "array_sort compareFn (x # xs) = insertBy compareFn x (array_sort compareFn xs)"

text \<open>A list is ordered by a comparator when no element compares greater than a later one.\<close>

definition ordered_by :: "('a \<Rightarrow> 'a \<Rightarrow> int) \<Rightarrow> 'a list \<Rightarrow> bool" where
  "ordered_by c xs = sorted_wrt (\<lambda>x y. c x y \<le> 0) xs"


section \<open>Data model (src/types/index.ts)\<close>

text \<open>
  The \<^verbatim>\<open>Asset\<close> interface. \<^verbatim>\<open>dailyChangePercent\<close> is the field that the filter and the
  sort compare. The loader supplies a finite value for it and a price update stores a
  value of magnitude at most 5, so it is modelled by the real number it denotes, on which
  the comparisons of the source are the exact ones. \<^verbatim>\<open>currentPrice\<close> is only ever
  multiplied, and a price update can take it to Infinity; it ranges over all Numbers.
\<close>

datatype AssetType = Stock | Crypto

record Asset =
  id' :: int
  name :: jsstring
  symbol :: jsstring
  type' :: AssetType
  currentPrice :: number
  dailyChangePercent :: real

datatype SortField = Name | DailyChangePercent

datatype SortDirection = Asc | Desc

text \<open>
  \<^verbatim>\<open>FilterType\<close> is a union of string literals that is only checked at compile time;
  the \<^verbatim>\<open>switch\<close> of \<^verbatim>\<open>filterAssets\<close> compares the string it receives at run time. The
  filter mode is therefore kept as the string itself, so that a mode outside the union
  is an input of the model.
\<close>

type_synonym FilterType = string


section \<open>Asset utilities (utils/assetUtils.ts)\<close>

text \<open>
  The last four lines of the comparator of \<^verbatim>\<open>sortAssets\<close>, for the two values
  \<^verbatim>\<open>aValue\<close> and \<^verbatim>\<open>bValue\<close>, which are both strings or both numbers.
\<close>

definition compareValues :: "SortDirection \<Rightarrow> 'a::linorder \<Rightarrow> 'a \<Rightarrow> int" where
  "compareValues direction aValue bValue =
     (if direction = Asc
      then (if aValue < bValue then - 1 else if aValue > bValue then 1 else 0)
      else (if aValue > bValue then - 1 else if aValue < bValue then 1 else 0))"

definition compareAssets ::
  "(jsstring \<Rightarrow> jsstring) \<Rightarrow> SortField \<Rightarrow> SortDirection \<Rightarrow> Asset \<Rightarrow> Asset \<Rightarrow> int" where
  "compareAssets toLowerCase field direction a b =
     (if field = Name
      then compareValues direction (toLowerCase (name a)) (toLowerCase (name b))
      else compareValues direction (dailyChangePercent a) (dailyChangePercent b))"

definition sortAssets ::
  "(jsstring \<Rightarrow> jsstring) \<Rightarrow> Asset list \<Rightarrow> SortField \<Rightarrow> SortDirection \<Rightarrow> Asset list" where
  "sortAssets toLowerCase assets field direction =
     array_sort (compareAssets toLowerCase field direction) assets"

definition filterAssets :: "Asset list \<Rightarrow> FilterType \<Rightarrow> Asset list" where
  "filterAssets assets filterType =
     (if filterType = ''topGainers'' then filter (\<lambda>asset. dailyChangePercent asset > 0) assets
      else if filterType = ''topLosers'' then filter (\<lambda>asset. dailyChangePercent asset < 0) assets
      else if filterType = ''stocks'' then filter (\<lambda>asset. type' asset = Stock) assets
      else if filterType = ''crypto'' then filter (\<lambda>asset. type' asset = Crypto) assets
      else assets)"

text \<open>
  The callback of \<^verbatim>\<open>updateAssetPrices\<close>, with the value returned by \<^verbatim>\<open>Math.random()\<close>
  as the parameter \<open>r\<close>. Every operation of the source is the exact operation followed
  by the rounding. \<^verbatim>\<open>Math.random()\<close> is at least 0 and less than 1, so the change and the
  factor \<^verbatim>\<open>1 + changePercent / 100\<close> stay far from the overflow threshold; the price is
  arbitrary, and the operations on it are those on all Numbers.
\<close>

definition updateAsset :: "real \<Rightarrow> Asset \<Rightarrow> Asset" where
  "updateAsset r asset =
     (let changePercent = round64 (round64 (r - 0.5) * 10);
          newPrice = num_mul (currentPrice asset)
                       (Finite (round64 (1 + round64 (changePercent / 100))))
      in asset\<lparr>currentPrice := num_div (num_Math_round (num_mul newPrice (Finite 100))) 100,
               dailyChangePercent := round64 (Math_round (round64 (changePercent * 100)) / 100)\<rparr>)"

text \<open>
  \<^verbatim>\<open>Math.random\<close> is a global generator; \<open>random n\<close> is the value of its \<open>n\<close>-th call.
  \<^verbatim>\<open>Array.prototype.map\<close> visits the assets in index order, so the asset at index \<open>i\<close>
  consumes the draw \<open>random i\<close>.
\<close>

fun updateAssetPrices :: "(nat \<Rightarrow> real) \<Rightarrow> Asset list \<Rightarrow> Asset list" where
  "updateAssetPrices random [] = []"
| "updateAssetPrices random (asset # assets) =
     updateAsset (random 0) asset # updateAssetPrices (\<lambda>n. random (Suc n)) assets"

text \<open>The optional parameter \<^verbatim>\<open>limit\<close> is \<open>None\<close> when the caller leaves it out.\<close>

definition getSimilarAssets :: "Asset list \<Rightarrow> Asset \<Rightarrow> int option \<Rightarrow> Asset list" where
  "getSimilarAssets assets currentAsset limit =
     slice0
       (filter (\<lambda>asset. id' asset \<noteq> id' currentAsset \<and> type' asset = type' currentAsset) assets)
       (case limit of None \<Rightarrow> 3 | Some n \<Rightarrow> n)"


section \<open>The view controller (screens/HomeScreen.tsx)\<close>

text \<open>The memoised value \<^verbatim>\<open>processedAssets\<close>, as a function of its five dependencies.\<close>

definition processedAssets ::
  "(jsstring \<Rightarrow> jsstring) \<Rightarrow> Asset list \<Rightarrow> jsstring \<Rightarrow> SortField \<Rightarrow> SortDirection \<Rightarrow> FilterType
     \<Rightarrow> Asset list" where
  "processedAssets toLowerCase assets searchQuery sortField sortDirection filterType =
     (let filtered = filterAssets assets filterType;
          filtered =
            (if searchQuery \<noteq> []
             then filter (\<lambda>asset.
                    string_includes (toLowerCase (name asset)) (toLowerCase searchQuery) \<or>
                    string_includes (toLowerCase (symbol asset)) (toLowerCase searchQuery)) filtered
             else filtered)
      in sortAssets toLowerCase filtered sortField sortDirection)"

text \<open>
  The search stage on its own: the statement between the filter call and the sort call
  of \<^verbatim>\<open>processedAssets\<close>.
\<close>

definition searchAssets :: "(jsstring \<Rightarrow> jsstring) \<Rightarrow> Asset list \<Rightarrow> jsstring \<Rightarrow> Asset list" where
  "searchAssets toLowerCase assets searchQuery =
     (if searchQuery \<noteq> []
      then filter (\<lambda>asset.
             string_includes (toLowerCase (name asset)) (toLowerCase searchQuery) \<or>
             string_includes (toLowerCase (symbol asset)) (toLowerCase searchQuery)) assets
      else assets)"


section \<open>The stages as the specification words them\<close>

text \<open>
  The three stages of the pipeline, written from sections 4.2 to 4.4 of the specification
  and not from the source, to compare the view controller with.

  Section 4.2: the filter keeps the assets that match the predicate of the mode; the
  modes \<^verbatim>\<open>equities\<close> and \<^verbatim>\<open>digitalAssets\<close> are the strings \<^verbatim>\<open>stocks\<close> and \<^verbatim>\<open>crypto\<close> of
  the source, and \<^verbatim>\<open>all\<close> and an unrecognized mode keep every asset.
\<close>

definition spec_keeps :: "FilterType \<Rightarrow> Asset \<Rightarrow> bool" where
  "spec_keeps mode a =
     (if mode = ''topGainers'' then 0 < dailyChangePercent a
      else if mode = ''topLosers'' then dailyChangePercent a < 0
      else if mode = ''stocks'' then type' a = Stock
      else if mode = ''crypto'' then type' a = Crypto
      else True)"

definition spec_filter :: "Asset list \<Rightarrow> FilterType \<Rightarrow> Asset list" where
  "spec_filter assets mode = filter (spec_keeps mode) assets"

text \<open>
  Section 4.3: without a query the search is the identity; otherwise it keeps an asset
  if its name or symbol, case-folded, contains the case-folded query as a substring.
  \<open>noQuery\<close> says which queries count as no query: the specification says the empty
  and the blank ones (\<open>isBlank\<close>: nothing but white space), the source only the empty one
  (\<open>isEmpty\<close>).
\<close>

definition isWhiteSpace :: "16 word \<Rightarrow> bool" where
  "isWhiteSpace u =
     (u \<in> set [9, 10, 11, 12, 13, 32, 160, 5760, 8232, 8233, 8239, 8287, 12288, 65279]
      \<or> (8192 \<le> u \<and> u \<le> 8202))"

definition isBlank :: "jsstring \<Rightarrow> bool" where
  "isBlank q = list_all isWhiteSpace q"

definition isEmpty :: "jsstring \<Rightarrow> bool" where
  "isEmpty q = (q = [])"

definition spec_search ::
  "(jsstring \<Rightarrow> bool) \<Rightarrow> (jsstring \<Rightarrow> jsstring) \<Rightarrow> Asset list \<Rightarrow> jsstring \<Rightarrow> Asset list" where
  "spec_search noQuery caseFold assets query =
     (if noQuery query then assets
      else filter (\<lambda>a. sublist (caseFold query) (caseFold (name a)) \<or>
                       sublist (caseFold query) (caseFold (symbol a))) assets)"

text \<open>
  Section 4.4: a stable sort by the case-folded name or by the change; ascending has the
  smaller key first, descending the larger key first, and in both directions equal keys
  keep their input order. \<open>sort_key\<close> is the stable ascending sort of the library. Sorting
  the reversed list and reversing the result gives the stable descending sort.
\<close>

definition stable_sort_desc :: "('a \<Rightarrow> 'k::linorder) \<Rightarrow> 'a list \<Rightarrow> 'a list" where
  "stable_sort_desc key xs = rev (sort_key key (rev xs))"

definition spec_sort ::
  "(jsstring \<Rightarrow> jsstring) \<Rightarrow> Asset list \<Rightarrow> SortField \<Rightarrow> SortDirection \<Rightarrow> Asset list" where
  "spec_sort caseFold assets field direction =
     (case (field, direction) of
        (Name, Asc) \<Rightarrow> sort_key (\<lambda>a. caseFold (name a)) assets
      | (Name, Desc) \<Rightarrow> stable_sort_desc (\<lambda>a. caseFold (name a)) assets
      | (DailyChangePercent, Asc) \<Rightarrow> sort_key dailyChangePercent assets
      | (DailyChangePercent, Desc) \<Rightarrow> stable_sort_desc dailyChangePercent assets)"


section \<open>Sample data (the assets of the test suites)\<close>

text \<open>A decimal literal denotes the binary64 value nearest to it.\<close>

definition apple :: Asset where
  "apple = \<lparr>id' = 1, name = utf16 ''Apple Inc.'', symbol = utf16 ''AAPL'', type' = Stock,
            currentPrice = Finite 150, dailyChangePercent = 5 / 2\<rparr>"

definition bitcoin :: Asset where
  "bitcoin = \<lparr>id' = 2, name = utf16 ''Bitcoin'', symbol = utf16 ''BTC'', type' = Crypto,
              currentPrice = Finite 45000, dailyChangePercent = round64 (- (12 / 10))\<rparr>"

definition tesla :: Asset where
  "tesla = \<lparr>id' = 3, name = utf16 ''Tesla Inc.'', symbol = utf16 ''TSLA'', type' = Stock,
            currentPrice = Finite 800, dailyChangePercent = round64 (58 / 10)\<rparr>"

definition ethereum :: Asset where
  "ethereum = \<lparr>id' = 4, name = utf16 ''Ethereum'', symbol = utf16 ''ETH'', type' = Crypto,
               currentPrice = Finite 3000, dailyChangePercent = round64 (- (31 / 10))\<rparr>"

definition mockAssets :: "Asset list" where
  "mockAssets = [apple, bitcoin, tesla, ethereum]"

text \<open>A generator whose every draw is one half, so that every change is zero percent.\<close>

definition draws_half :: "nat \<Rightarrow> real" where
  "draws_half = (\<lambda>n. 1 / 2)"

text \<open>An asset quoted at a tenth of a cent, \<^verbatim>\<open>currentPrice: 0.001\<close>.\<close>

definition dust :: Asset where
  "dust = \<lparr>id' = 5, name = utf16 ''Dust'', symbol = utf16 ''DUST'', type' = Crypto,
           currentPrice = fl64 (1 / 1000), dailyChangePercent = 0\<rparr>"

text \<open>An asset that ties with \<open>apple\<close> on both sort keys.\<close>

definition appleShares :: Asset where
  "appleShares = \<lparr>id' = 6, name = utf16 ''APPLE INC.'', symbol = utf16 ''APLE'', type' = Stock,
                  currentPrice = Finite 75, dailyChangePercent = 5 / 2\<rparr>"


section \<open>The sort of arrays by a comparator\<close>

lemma mset_insertBy: "mset (insertBy c x ys) = add_mset x (mset ys)"
  by (induction ys) simp_all

lemma mset_array_sort: "mset (array_sort c xs) = mset xs"
  by (induction xs) (simp_all add: mset_insertBy)

lemma set_insertBy: "set (insertBy c x ys) = insert x (set ys)"
  by (induction ys) auto

lemma insertBy_front: "(\<And>y. y \<in> set ys \<Longrightarrow> c x y \<le> 0) \<Longrightarrow> insertBy c x ys = x # ys"
  by (cases ys) simp_all

lemma array_sort_ordered_id: "ordered_by c xs \<Longrightarrow> array_sort c xs = xs"
  by (induction xs) (simp_all add: ordered_by_def insertBy_front)

lemma ordered_insertBy:
  assumes total: "\<And>x y. c x y \<le> 0 \<or> c y x \<le> 0"
    and trans: "\<And>x y z. c x y \<le> 0 \<Longrightarrow> c y z \<le> 0 \<Longrightarrow> c x z \<le> 0"
  shows "ordered_by c ys \<Longrightarrow> ordered_by c (insertBy c x ys)"
proof (induction ys)
  case Nil
  show ?case by (simp add: ordered_by_def)
next
  case (Cons y ys)
  show ?case
  proof (cases "c x y \<le> 0")
    case True
    with Cons.prems trans show ?thesis
      by (auto simp: ordered_by_def)
  next
    case False
    with total have "c y x \<le> 0" by blast
    with False Cons show ?thesis
      by (auto simp: ordered_by_def set_insertBy)
  qed
qed

lemma ordered_array_sort:
  assumes total: "\<And>x y. c x y \<le> 0 \<or> c y x \<le> 0"
    and trans: "\<And>x y z. c x y \<le> 0 \<Longrightarrow> c y z \<le> 0 \<Longrightarrow> c x z \<le> 0"
  shows "ordered_by c (array_sort c xs)"
proof (induction xs)
  case Nil
  show ?case by (simp add: ordered_by_def)
next
  case (Cons x xs)
  then show ?case using ordered_insertBy [of c, OF total trans] by simp
qed

lemma filter_insertBy_other: "\<not> P x \<Longrightarrow> filter P (insertBy c x ys) = filter P ys"
  by (induction ys) simp_all

lemma filter_insertBy_tie:
  assumes "\<And>y. y \<in> set ys \<Longrightarrow> P y \<Longrightarrow> c x y \<le> 0" and "P x"
  shows "filter P (insertBy c x ys) = x # filter P ys"
  using assms by (induction ys) auto

lemma array_sort_stable:
  assumes "\<And>x y. P x \<Longrightarrow> P y \<Longrightarrow> c x y \<le> 0"
  shows "filter P (array_sort c xs) = filter P xs"
proof (induction xs)
  case Nil
  show ?case by simp
next
  case (Cons x xs)
  show ?case
  proof (cases "P x")
    case True
    then have "filter P (insertBy c x (array_sort c xs)) = x # filter P (array_sort c xs)"
      using assms by (intro filter_insertBy_tie) auto
    with True Cons show ?thesis by simp
  next
    case False
    with Cons show ?thesis by (simp add: filter_insertBy_other)
  qed
qed


section \<open>The comparator of the source\<close>

lemma compareAssets_le_iff:
  "compareAssets lc f d a b \<le> 0 \<longleftrightarrow>
     (if f = Name
      then (if d = Asc then lc (name a) \<le> lc (name b) else lc (name b) \<le> lc (name a))
      else (if d = Asc then dailyChangePercent a \<le> dailyChangePercent b
            else dailyChangePercent b \<le> dailyChangePercent a))"
  by (auto simp: compareAssets_def compareValues_def)

lemma compareAssets_eq_iff:
  "compareAssets lc f d a b = 0 \<longleftrightarrow>
     (if f = Name then lc (name a) = lc (name b)
      else dailyChangePercent a = dailyChangePercent b)"
  by (auto simp: compareAssets_def compareValues_def)

lemma compareAssets_total: "compareAssets lc f d a b \<le> 0 \<or> compareAssets lc f d b a \<le> 0"
  by (auto simp: compareAssets_le_iff)

lemma compareAssets_trans:
  "compareAssets lc f d a b \<le> 0 \<Longrightarrow> compareAssets lc f d b c \<le> 0
     \<Longrightarrow> compareAssets lc f d a c \<le> 0"
  by (auto simp: compareAssets_le_iff split: if_splits)

lemma compareAssets_mirror: "compareAssets lc f Desc a b = compareAssets lc f Asc b a"
  by (simp add: compareAssets_def compareValues_def)

lemma ordered_sortAssets: "ordered_by (compareAssets lc f d) (sortAssets lc A f d)"
  unfolding sortAssets_def
  by (rule ordered_array_sort) (rule compareAssets_total, erule compareAssets_trans)

lemma stable_on_name:
  "filter (\<lambda>b. lc (name b) = k) (sortAssets lc A Name d) = filter (\<lambda>b. lc (name b) = k) A"
  unfolding sortAssets_def
  by (rule array_sort_stable) (simp add: compareAssets_le_iff)

lemma stable_on_change:
  "filter (\<lambda>b. dailyChangePercent b = v) (sortAssets lc A DailyChangePercent d) =
   filter (\<lambda>b. dailyChangePercent b = v) A"
  unfolding sortAssets_def
  by (rule array_sort_stable) (simp add: compareAssets_le_iff)

lemma sortAssets_order:
  "sorted_wrt (\<lambda>a b. lc (name a) \<le> lc (name b)) (sortAssets lc A Name Asc)"
  "sorted_wrt (\<lambda>a b. lc (name b) \<le> lc (name a)) (sortAssets lc A Name Desc)"
  "sorted_wrt (\<lambda>a b. dailyChangePercent a \<le> dailyChangePercent b)
     (sortAssets lc A DailyChangePercent Asc)"
  "sorted_wrt (\<lambda>a b. dailyChangePercent b \<le> dailyChangePercent a)
     (sortAssets lc A DailyChangePercent Desc)"
  using ordered_sortAssets [of lc Name Asc A] ordered_sortAssets [of lc Name Desc A]
    ordered_sortAssets [of lc DailyChangePercent Asc A]
    ordered_sortAssets [of lc DailyChangePercent Desc A]
  by (simp_all add: ordered_by_def compareAssets_le_iff)

lemma mset_sortAssets: "mset (sortAssets lc A f d) = mset A"
  by (simp add: sortAssets_def mset_array_sort)

lemma sortAssets_pair_tie:
  "compareAssets lc f d a b = 0 \<Longrightarrow> sortAssets lc [a, b] f d = [a, b]"
  by (simp add: sortAssets_def)


section \<open>Strings, slices and rounding\<close>

lemma startsWith_iff: "startsWith s q \<longleftrightarrow> (\<exists>v. s = q @ v)"
  by (induction s q rule: startsWith.induct) auto

lemma string_includes_iff: "string_includes s q \<longleftrightarrow> (\<exists>u v. s = u @ q @ v)"
proof (induction s)
  case Nil
  show ?case by (simp add: startsWith_iff)
next
  case (Cons c cs)
  have "(\<exists>u v. c # cs = u @ q @ v) \<longleftrightarrow> (\<exists>v. c # cs = q @ v) \<or> (\<exists>u v. cs = u @ q @ v)"
  proof
    assume "\<exists>u v. c # cs = u @ q @ v"
    then obtain u v where uv: "c # cs = u @ q @ v" by blast
    show "(\<exists>v. c # cs = q @ v) \<or> (\<exists>u v. cs = u @ q @ v)"
    proof (cases u)
      case Nil
      with uv show ?thesis by auto
    next
      case (Cons a u')
      with uv have "cs = u' @ q @ v" by simp
      then show ?thesis by blast
    qed
  next
    assume "(\<exists>v. c # cs = q @ v) \<or> (\<exists>u v. cs = u @ q @ v)"
    then show "\<exists>u v. c # cs = u @ q @ v"
    proof
      assume "\<exists>v. c # cs = q @ v"
      then obtain v where "c # cs = [] @ q @ v" by auto
      then show ?thesis by blast
    next
      assume "\<exists>u v. cs = u @ q @ v"
      then obtain u v where "c # cs = (c # u) @ q @ v" by auto
      then show ?thesis by blast
    qed
  qed
  with Cons show ?case by (simp add: startsWith_iff)
qed

lemma string_includes_sublist: "string_includes s q \<longleftrightarrow> sublist q s"
  by (simp add: string_includes_iff sublist_def)

lemma slice0_nonneg: "0 \<le> n \<Longrightarrow> slice0 xs n = take (nat n) xs"
  by (auto simp: slice0_def Let_def min_def)

text \<open>
  The rounding is to nearest: the rounded value is within half a unit in the last place
  of the exact one.
\<close>

lemma roundHalfEven_error: "\<bar>of_int (roundHalfEven y) - y\<bar> \<le> 1 / 2"
  unfolding roundHalfEven_def Let_def by (auto; linarith)

lemma pow2_pos: "0 < pow2 k"
  by (simp add: pow2_def)

lemma round64_error:
  "\<bar>round64 x - x\<bar> \<le> pow2 (max (binade x) (- 1022) - 52) / 2"
proof (cases "x = 0")
  case True
  then show ?thesis using pow2_pos [of "max (binade x) (- 1022) - 52"] by (simp add: round64_def)
next
  case False
  define u where "u = pow2 (max (binade x) (- 1022) - 52)"
  have u: "0 < u" unfolding u_def by (rule pow2_pos)
  have "\<bar>of_int (roundHalfEven (x / u)) - x / u\<bar> * u \<le> 1 / 2 * u"
    using roundHalfEven_error [of "x / u"] u by (intro mult_right_mono) simp_all
  moreover have "\<bar>of_int (roundHalfEven (x / u)) - x / u\<bar> * u
      = \<bar>of_int (roundHalfEven (x / u)) * u - x\<bar>"
  proof -
    have "\<bar>of_int (roundHalfEven (x / u)) - x / u\<bar> * \<bar>u\<bar>
        = \<bar>(of_int (roundHalfEven (x / u)) - x / u) * u\<bar>"
      by (simp only: abs_mult)
    also have "(of_int (roundHalfEven (x / u)) - x / u) * u
        = of_int (roundHalfEven (x / u)) * u - x"
      using u by (simp add: left_diff_distrib)
    finally show ?thesis using u by simp
  qed
  ultimately show ?thesis
    using False by (simp add: round64_def Let_def u_def)
qed

text \<open>
  The price update on three inputs, with the results of binary64 arithmetic: 1 becomes
  1.02 at the draw 0.75, and 800 becomes 804.37 with a change of 0.55 at the draw 71/128.
\<close>

lemma updateAsset_binary64_examples:
  "currentPrice (updateAsset (3 / 4) (apple\<lparr>currentPrice := Finite 1\<rparr>)) = fl64 (102 / 100)"
  "currentPrice (updateAsset (71 / 128) tesla) = fl64 (80437 / 100)"
  "dailyChangePercent (updateAsset (71 / 128) tesla) = round64 (55 / 100)"
  by code_simp+


section \<open>Properties of the sort stage\<close>

text \<open>
  C10. The output of \<^verbatim>\<open>sortAssets\<close> is a permutation of its input: the same assets with
  the same multiplicities, so the length and the set of elements are those of the input
  and the ids of the output are distinct exactly when those of the input are.
\<close>

theorem sortAssets_permutation:
  "mset (sortAssets lc A f d) = mset A \<and>
   length (sortAssets lc A f d) = length A \<and>
   set (sortAssets lc A f d) = set A \<and>
   (distinct (map id' (sortAssets lc A f d)) \<longleftrightarrow> distinct (map id' A))"
proof -
  have m: "mset (sortAssets lc A f d) = mset A"
    by (rule mset_sortAssets)
  have "mset (map id' (sortAssets lc A f d)) = mset (map id' A)"
    using m by (metis mset_map)
  then have "distinct (map id' (sortAssets lc A f d)) \<longleftrightarrow> distinct (map id' A)"
    by (rule mset_eq_imp_distinct_iff)
  moreover have "length (sortAssets lc A f d) = length A"
    using m by (rule mset_eq_length)
  moreover have "set (sortAssets lc A f d) = set A"
    using m by (rule mset_eq_setD)
  ultimately show ?thesis using m by simp
qed

text \<open>
  C9. \<^verbatim>\<open>sortAssets\<close> is idempotent: sorting an already sorted list again, by the same
  field and direction, returns it unchanged.
\<close>

theorem sortAssets_idempotent:
  "sortAssets lc (sortAssets lc A f d) f d = sortAssets lc A f d"
proof -
  have "array_sort (compareAssets lc f d) (sortAssets lc A f d) = sortAssets lc A f d"
    using ordered_sortAssets by (rule array_sort_ordered_id)
  then show ?thesis by (simp add: sortAssets_def)
qed

text \<open>
  C4. \<^verbatim>\<open>sortAssets\<close> is stable in both directions, whatever the case conversion: the
  assets that share a key (the lower-cased name, or the daily change) occur in the output
  in their input order. The comparator returns zero exactly on equal keys, and the
  descending comparator is the ascending one with its arguments exchanged. Two assets
  whose lower-cased names are equal, or whose changes are equal, stay in their input
  order in either direction. The output has the smaller key first when ascending and the
  larger key first when descending.
\<close>

theorem sortAssets_stable:
  "filter (\<lambda>b. lc (name b) = k) (sortAssets lc A Name d) =
     filter (\<lambda>b. lc (name b) = k) A \<and>
   filter (\<lambda>b. dailyChangePercent b = v) (sortAssets lc A DailyChangePercent d) =
     filter (\<lambda>b. dailyChangePercent b = v) A \<and>
   compareAssets lc f Desc a b = compareAssets lc f Asc b a \<and>
   (compareAssets lc Name d a b = 0 \<longleftrightarrow> lc (name a) = lc (name b)) \<and>
   (compareAssets lc DailyChangePercent d a b = 0 \<longleftrightarrow>
      dailyChangePercent a = dailyChangePercent b) \<and>
   (lc (name a) = lc (name b) \<longrightarrow> sortAssets lc [a, b] Name d = [a, b]) \<and>
   (dailyChangePercent a = dailyChangePercent b \<longrightarrow>
      sortAssets lc [a, b] DailyChangePercent d = [a, b]) \<and>
   sorted_wrt (\<lambda>a b. lc (name a) \<le> lc (name b)) (sortAssets lc A Name Asc) \<and>
   sorted_wrt (\<lambda>a b. lc (name b) \<le> lc (name a)) (sortAssets lc A Name Desc) \<and>
   sorted_wrt (\<lambda>a b. dailyChangePercent a \<le> dailyChangePercent b)
     (sortAssets lc A DailyChangePercent Asc) \<and>
   sorted_wrt (\<lambda>a b. dailyChangePercent b \<le> dailyChangePercent a)
     (sortAssets lc A DailyChangePercent Desc)"
proof -
  have n: "lc (name a) = lc (name b) \<longrightarrow> sortAssets lc [a, b] Name d = [a, b]"
    by (simp add: sortAssets_pair_tie compareAssets_eq_iff)
  have c: "dailyChangePercent a = dailyChangePercent b \<longrightarrow>
      sortAssets lc [a, b] DailyChangePercent d = [a, b]"
    by (simp add: sortAssets_pair_tie compareAssets_eq_iff)
  show ?thesis
    using n c
    by (simp only: stable_on_name stable_on_change compareAssets_mirror
        sortAssets_order compareAssets_eq_iff SortField.distinct if_True if_False simp_thms)
qed

theorem sortAssets_stable_witness:
  "asciiLowerCase (name apple) = asciiLowerCase (name appleShares) \<and>
   dailyChangePercent apple = dailyChangePercent appleShares \<and>
   name apple \<noteq> name appleShares \<and>
   sortAssets asciiLowerCase [apple, appleShares] Name Asc = [apple, appleShares] \<and>
   sortAssets asciiLowerCase [apple, appleShares] DailyChangePercent Asc = [apple, appleShares]"
proof -
  have h1: "asciiLowerCase (name apple) = asciiLowerCase (name appleShares)"
    by code_simp
  have h2: "dailyChangePercent apple = dailyChangePercent appleShares"
    by (simp add: apple_def appleShares_def)
  have h3: "name apple \<noteq> name appleShares"
    by code_simp
  from h1 h2 h3 show ?thesis
    using sortAssets_stable [where lc = asciiLowerCase and a = apple and b = appleShares
        and d = Asc]
    by blast
qed

text \<open>
  An instance with a tie: descending, the two assets keep their input order, which is
  not the reverse of the ascending output.
\<close>

lemma sortAssets_desc_tie_example:
  "sortAssets asciiLowerCase [apple, appleShares] DailyChangePercent Desc = [apple, appleShares] \<and>
   rev (sortAssets asciiLowerCase [apple, appleShares] DailyChangePercent Asc)
     = [appleShares, apple] \<and>
   sortAssets asciiLowerCase [apple, appleShares] Name Desc = [apple, appleShares]"
  by code_simp

text \<open>
  \<^verbatim>\<open>sortAssets\<close> is the stable sort of section 4.4.
\<close>

lemma stable_asc_unique:
  fixes key :: "'a \<Rightarrow> 'k::linorder"
  assumes "mset B = mset A"
    and "\<And>k. filter (\<lambda>x. key x = k) B = filter (\<lambda>x. key x = k) A"
    and "sorted_wrt (\<lambda>x y. key x \<le> key y) B"
  shows "sort_key key A = B"
proof (rule properties_for_sort_key)
  show "mset B = mset A" by fact
  show "filter (\<lambda>x. key k = key x) B = filter (\<lambda>x. key k = key x) A" for k
    using assms(2) [of "key k"] by (simp add: eq_commute)
  show "sorted (map key B)" using assms(3) by (simp add: sorted_map)
qed

lemma stable_desc_unique:
  fixes key :: "'a \<Rightarrow> 'k::linorder"
  assumes "mset B = mset A"
    and "\<And>k. filter (\<lambda>x. key x = k) B = filter (\<lambda>x. key x = k) A"
    and "sorted_wrt (\<lambda>x y. key y \<le> key x) B"
  shows "stable_sort_desc key A = B"
proof -
  have "sort_key key (rev A) = rev B"
  proof (rule stable_asc_unique)
    show "mset (rev B) = mset (rev A)" using assms(1) by simp
    show "filter (\<lambda>x. key x = k) (rev B) = filter (\<lambda>x. key x = k) (rev A)" for k
      using assms(2) [of k] by (simp flip: rev_filter)
    show "sorted_wrt (\<lambda>x y. key x \<le> key y) (rev B)"
      using assms(3) by (simp add: sorted_wrt_rev)
  qed
  then show ?thesis by (simp add: stable_sort_desc_def)
qed

lemma sortAssets_spec_sort: "sortAssets lc A f d = spec_sort lc A f d"
proof (cases f; cases d)
  assume "f = Name" "d = Asc"
  then show ?thesis
    using stable_asc_unique [of "sortAssets lc A Name Asc" A "\<lambda>a. lc (name a)"]
    by (simp add: spec_sort_def mset_sortAssets stable_on_name sortAssets_order)
next
  assume "f = Name" "d = Desc"
  then show ?thesis
    using stable_desc_unique [of "sortAssets lc A Name Desc" A "\<lambda>a. lc (name a)"]
    by (simp add: spec_sort_def mset_sortAssets stable_on_name sortAssets_order)
next
  assume "f = DailyChangePercent" "d = Asc"
  then show ?thesis
    using stable_asc_unique [of "sortAssets lc A DailyChangePercent Asc" A dailyChangePercent]
    by (simp add: spec_sort_def mset_sortAssets stable_on_change sortAssets_order)
next
  assume "f = DailyChangePercent" "d = Desc"
  then show ?thesis
    using stable_desc_unique [of "sortAssets lc A DailyChangePercent Desc" A dailyChangePercent]
    by (simp add: spec_sort_def mset_sortAssets stable_on_change sortAssets_order)
qed


section \<open>Properties of the filter stage\<close>

text \<open>
  C3. \<^verbatim>\<open>topGainers\<close> keeps exactly the assets whose daily change is above zero,
  \<^verbatim>\<open>topLosers\<close> exactly those below zero; together with the assets whose change is zero
  they partition the input (as multisets, and no asset is in two parts), and each result
  is a subsequence of the input.
\<close>

theorem filterAssets_partition:
  "filterAssets A ''topGainers'' = filter (\<lambda>a. 0 < dailyChangePercent a) A \<and>
   filterAssets A ''topLosers'' = filter (\<lambda>a. dailyChangePercent a < 0) A \<and>
   mset A = mset (filterAssets A ''topGainers'') + mset (filterAssets A ''topLosers'')
            + mset (filter (\<lambda>a. dailyChangePercent a = 0) A) \<and>
   set (filterAssets A ''topGainers'') \<inter> set (filterAssets A ''topLosers'') = {} \<and>
   set (filterAssets A ''topGainers'') \<inter> set (filter (\<lambda>a. dailyChangePercent a = 0) A) = {} \<and>
   set (filterAssets A ''topLosers'') \<inter> set (filter (\<lambda>a. dailyChangePercent a = 0) A) = {} \<and>
   subseq (filterAssets A ''topGainers'') A \<and>
   subseq (filterAssets A ''topLosers'') A"
proof -
  have g: "filterAssets A ''topGainers'' = filter (\<lambda>a. 0 < dailyChangePercent a) A"
    by (simp add: filterAssets_def)
  have l: "filterAssets A ''topLosers'' = filter (\<lambda>a. dailyChangePercent a < 0) A"
    by (simp add: filterAssets_def)
  have m: "mset A = mset (filter (\<lambda>a. 0 < dailyChangePercent a) A)
             + mset (filter (\<lambda>a. dailyChangePercent a < 0) A)
             + mset (filter (\<lambda>a. dailyChangePercent a = 0) A)"
    by (induction A) auto
  have d1: "set (filter (\<lambda>a. 0 < dailyChangePercent a) A)
             \<inter> set (filter (\<lambda>a. dailyChangePercent a < 0) A) = {}"
    by auto
  have d2: "set (filter (\<lambda>a. 0 < dailyChangePercent a) A)
             \<inter> set (filter (\<lambda>a. dailyChangePercent a = 0) A) = {}"
    by auto
  have d3: "set (filter (\<lambda>a. dailyChangePercent a < 0) A)
             \<inter> set (filter (\<lambda>a. dailyChangePercent a = 0) A) = {}"
    by auto
  show ?thesis
    unfolding g l using m d1 d2 d3 by (simp only: subseq_filter_left simp_thms)
qed

text \<open>
  C5. For the mode \<^verbatim>\<open>all\<close> and for every string that is none of the four filtering
  modes, \<^verbatim>\<open>filterAssets\<close> returns its input unchanged; the function has no failing
  branch.
\<close>

theorem filterAssets_fail_open:
  "mode \<notin> {''topGainers'', ''topLosers'', ''stocks'', ''crypto''} \<Longrightarrow> filterAssets A mode = A"
  by (simp add: filterAssets_def)

theorem filterAssets_fail_open_witness:
  "''all'' \<notin> {''topGainers'', ''topLosers'', ''stocks'', ''crypto''} \<and>
   ''gainers'' \<notin> {''topGainers'', ''topLosers'', ''stocks'', ''crypto''} \<and>
   filterAssets mockAssets ''all'' = mockAssets \<and>
   filterAssets mockAssets ''gainers'' = mockAssets"
  using filterAssets_fail_open [of "''all''" mockAssets]
    filterAssets_fail_open [of "''gainers''" mockAssets]
  by simp

lemma filterAssets_spec_filter: "filterAssets A F = spec_filter A F"
  by (simp add: filterAssets_def spec_filter_def spec_keeps_def [abs_def])


section \<open>Properties of the similarity recommender\<close>

text \<open>
  C6. For a limit \<open>n \<ge> 0\<close>, every asset returned by \<^verbatim>\<open>getSimilarAssets\<close> has the type
  of the focal asset and another id, at most \<open>n\<close> assets are returned, and the result is
  a subsequence of the collection: the first \<open>n\<close> peers in collection order. Without a
  limit the function behaves as with the limit 3.
\<close>

theorem getSimilarAssets_spec:
  assumes "0 \<le> n"
  shows "(\<forall>x \<in> set (getSimilarAssets A focal (Some n)).
            type' x = type' focal \<and> id' x \<noteq> id' focal) \<and>
         int (length (getSimilarAssets A focal (Some n))) \<le> n \<and>
         subseq (getSimilarAssets A focal (Some n)) A \<and>
         getSimilarAssets A focal (Some n) =
           take (nat n) (filter (\<lambda>x. id' x \<noteq> id' focal \<and> type' x = type' focal) A) \<and>
         getSimilarAssets A focal None = getSimilarAssets A focal (Some 3)"
proof -
  define peers where "peers = filter (\<lambda>x. id' x \<noteq> id' focal \<and> type' x = type' focal) A"
  have eq: "getSimilarAssets A focal (Some n) = take (nat n) peers"
    using assms by (simp add: getSimilarAssets_def slice0_nonneg peers_def)
  have "set (take (nat n) peers) \<subseteq> set peers"
    by (rule set_take_subset)
  then have mem: "\<forall>x \<in> set (take (nat n) peers). type' x = type' focal \<and> id' x \<noteq> id' focal"
    unfolding peers_def by auto
  have len: "int (length (take (nat n) peers)) \<le> n"
    using assms by simp
  have "subseq (take (nat n) peers) peers"
    by (rule prefix_imp_subseq) (rule take_is_prefix)
  moreover have "subseq peers A"
    unfolding peers_def by (rule subseq_filter_left)
  ultimately have sub: "subseq (take (nat n) peers) A"
    by (rule subseq_order.order_trans)
  have dflt: "getSimilarAssets A focal None = getSimilarAssets A focal (Some 3)"
    by (simp add: getSimilarAssets_def)
  from mem len sub dflt show ?thesis
    unfolding eq peers_def [symmetric] by blast
qed

theorem getSimilarAssets_spec_witness:
  "(0::int) \<le> 3 \<and>
   getSimilarAssets mockAssets apple (Some 3) = [tesla] \<and>
   type' tesla = type' apple \<and> id' tesla \<noteq> id' apple \<and>
   int (length (getSimilarAssets mockAssets apple (Some 3))) \<le> 3"
proof -
  have h: "(0::int) \<le> 3" by simp
  have r: "getSimilarAssets mockAssets apple (Some 3) = [tesla]"
    by code_simp
  then have "tesla \<in> set (getSimilarAssets mockAssets apple (Some 3))"
    by simp
  with getSimilarAssets_spec [OF h, of mockAssets apple]
  have "type' tesla = type' apple \<and> id' tesla \<noteq> id' apple \<and>
        int (length (getSimilarAssets mockAssets apple (Some 3))) \<le> 3"
    by blast
  with h r show ?thesis by blast
qed


section \<open>Properties of the price simulation\<close>

text \<open>
  C8. \<^verbatim>\<open>updateAssetPrices\<close> returns a list of the same length whose assets have, position
  by position, the id, name, symbol and type of the input. The function builds a new list
  of new records and assigns to nothing, so in the embedding the input is a value that
  the call cannot change.
\<close>

theorem updateAssetPrices_frame:
  "length (updateAssetPrices rnd A) = length A \<and>
   map id' (updateAssetPrices rnd A) = map id' A \<and>
   map name (updateAssetPrices rnd A) = map name A \<and>
   map symbol (updateAssetPrices rnd A) = map symbol A \<and>
   map type' (updateAssetPrices rnd A) = map type' A"
  by (induction A arbitrary: rnd) (simp_all add: updateAsset_def Let_def)

text \<open>
  C1. The new price is to be strictly positive whenever the old one is. The source
  rounds the new price to cents and has no floor: the asset quoted at 0.001, a positive
  binary64 value, comes out of one update at the draw one half with the price 0. The
  test suites of the repository expect a price above zero after updates, and above half
  the old price.
\<close>

theorem updateAssetPrices_price_zero:
  "currentPrice dust = Finite (1152921504606847 / 1152921504606846976) \<and>
   (0 :: real) < 1152921504606847 / 1152921504606846976 \<and>
   draws_half 0 = 1 / 2 \<and>
   map currentPrice (updateAssetPrices draws_half [dust]) = [Finite 0]"
  by code_simp


section \<open>Properties of the search stage and of the pipeline\<close>

lemma searchAssets_spec_search: "searchAssets lc A Q = spec_search isEmpty lc A Q"
  by (simp add: searchAssets_def spec_search_def isEmpty_def string_includes_sublist)

lemma processedAssets_searchAssets:
  "processedAssets lc A Q S D F = sortAssets lc (searchAssets lc (filterAssets A F) Q) S D"
  by (simp add: processedAssets_def searchAssets_def Let_def)

lemma searchAssets_empty: "searchAssets lc A [] = A"
  by (simp add: searchAssets_def)

lemma searchAssets_nonempty:
  "Q \<noteq> [] \<Longrightarrow> searchAssets lc A Q =
     filter (\<lambda>a. (\<exists>u v. lc (name a) = u @ lc Q @ v) \<or>
                 (\<exists>u v. lc (symbol a) = u @ lc Q @ v)) A"
  by (simp add: searchAssets_def string_includes_iff)

lemma subseq_searchAssets: "subseq (searchAssets lc A Q) A"
  by (simp add: searchAssets_def)

text \<open>
  C2, as the code has it. The rendered sequence is the sort of the search of the filter
  of the collection, in that order, where the filter and the sort are the stages of
  sections 4.2 and 4.4 and the search is that of section 4.3 with the identity for the
  empty query only.
\<close>

theorem processedAssets_pipeline:
  "processedAssets lc A Q S D F =
     spec_sort lc (spec_search isEmpty lc (spec_filter A F) Q) S D"
  by (simp only: processedAssets_searchAssets sortAssets_spec_sort searchAssets_spec_search
      filterAssets_spec_filter)

text \<open>
  With the search of section 4.3 as it is worded, the identity also for a blank query,
  the equation fails: a query of one space is blank, the specified pipeline renders the
  asset, and the view controller renders nothing.
\<close>

theorem processedAssets_blank_counterexample:
  "isBlank (utf16 '' '') \<and>
   processedAssets asciiLowerCase [bitcoin] (utf16 '' '') Name Asc ''all'' \<noteq>
     spec_sort asciiLowerCase
       (spec_search isBlank asciiLowerCase (spec_filter [bitcoin] ''all'') (utf16 '' '')) Name Asc"
  by code_simp

text \<open>
  C7, as the code has it. The search stage is the identity for the empty query. For every
  other query, a whitespace-only one included, it keeps exactly the assets whose
  lower-cased name or lower-cased symbol contains the lower-cased query as a substring,
  in input order; this holds whatever the case conversion.
\<close>

theorem searchAssets_spec:
  "searchAssets lc A [] = A \<and>
   (Q \<noteq> [] \<longrightarrow> searchAssets lc A Q =
      filter (\<lambda>a. (\<exists>u v. lc (name a) = u @ lc Q @ v) \<or>
                  (\<exists>u v. lc (symbol a) = u @ lc Q @ v)) A) \<and>
   subseq (searchAssets lc A Q) A"
  using searchAssets_empty searchAssets_nonempty subseq_searchAssets by blast

theorem searchAssets_spec_witness:
  "utf16 ''btc'' \<noteq> [] \<and>
   filter (\<lambda>a. (\<exists>u v. asciiLowerCase (name a) = u @ asciiLowerCase (utf16 ''btc'') @ v) \<or>
               (\<exists>u v. asciiLowerCase (symbol a) = u @ asciiLowerCase (utf16 ''btc'') @ v))
     mockAssets = [bitcoin]"
proof -
  have "searchAssets asciiLowerCase mockAssets (utf16 ''btc'') = [bitcoin]"
    by code_simp
  moreover have "utf16 ''btc'' \<noteq> []"
    by (simp add: utf16_def)
  ultimately show ?thesis
    using searchAssets_spec [of asciiLowerCase mockAssets "utf16 ''btc''"] by simp
qed

text \<open>
  A query of one space is not the identity: no name or symbol of the asset contains a
  space, so the asset is dropped.
\<close>

theorem searchAssets_blank_counterexample:
  "searchAssets asciiLowerCase [bitcoin] (utf16 '' '') \<noteq> [bitcoin] \<and>
   processedAssets asciiLowerCase [bitcoin] (utf16 '' '') Name Asc ''all'' = []"
  by code_simp


end
